theory Spec2Isabelle
  imports Complex_Main
begin

section \<open>The spending policy engine of x402-agent-pay\<close>

text \<open>
  A shallow embedding of \<^verbatim>\<open>PolicyEnforcer\<close> (the enhanced \<^verbatim>\<open>policy.ts\<close>, with
  weekly, monthly, velocity and per-recipient limits) and of \<^verbatim>\<open>ReceiptStore\<close>
  (\<^verbatim>\<open>receipts.ts\<close>).

  Conventions of the model:
  \<^item> a TypeScript \<^verbatim>\<open>number\<close> that holds a USDC amount is an exact rational (\<open>rat\<close>), the
    decimal of the specification, and \<open>+\<close> and \<open>-\<close> on amounts are exact; the rounding
    of IEEE doubles, \<^verbatim>\<open>NaN\<close> and infinities are outside the model. Counters and
    millisecond timestamps are \<open>int\<close>;
  \<^item> \<^verbatim>\<open>perRecipient\<close> is a plain object used as a dictionary: its own properties are a
    map, and a read falls back to the members it inherits from \<^verbatim>\<open>Object.prototype\<close>;
  \<^item> an instance holds its policy by reference; the instance as its methods see it is a
    \<open>PolicyEnforcer\<close>, and the policy objects of a process are a \<open>PolicyHeap\<close>;
  \<^item> an optional field (\<^verbatim>\<open>weeklyLimit?: number\<close>) is an \<open>option\<close>, \<open>None\<close> being
    \<^verbatim>\<open>undefined\<close>;
  \<^item> the system clock is an input: a \<open>Clock\<close> holds what \<^verbatim>\<open>Date.now()\<close> returns and
    the offset of the local time zone, one reading per method call;
  \<^item> the file at \<^verbatim>\<open>spendingPath\<close> is a component of the instance, so that what
    \<^verbatim>\<open>saveState()\<close> writes and what \<^verbatim>\<open>loadState()\<close> reads are visible;
  \<^item> the template strings of the denial reasons are a datatype, one constructor per
    template, carrying the values the template interpolates.
\<close>

subsection \<open>Strings: \<^verbatim>\<open>toLowerCase\<close>\<close>

text \<open>Addresses are ASCII hex strings; on ASCII, \<^verbatim>\<open>toLowerCase\<close> sets bit 5 of the
  letters \<^verbatim>\<open>A\<close> to \<^verbatim>\<open>Z\<close> (codes 65 to 90) and leaves every other character alone.\<close>

fun lower_char :: "char \<Rightarrow> char" where
  "lower_char (Char b0 b1 b2 b3 b4 b5 b6 b7) =
     (let n = (of_char (Char b0 b1 b2 b3 b4 b5 b6 b7) :: nat)
      in if 65 \<le> n \<and> n \<le> 90 then Char b0 b1 b2 b3 b4 True b6 b7
         else Char b0 b1 b2 b3 b4 b5 b6 b7)"

definition toLowerCase :: "string \<Rightarrow> string" where
  "toLowerCase s = map lower_char s"

subsection \<open>A plain object as a dictionary\<close>

text \<open>
  \<^verbatim>\<open>perRecipient: Record<string, number>\<close> is created as \<^verbatim>\<open>{}\<close> or by \<^verbatim>\<open>JSON.parse\<close>, so
  its prototype is \<^verbatim>\<open>Object.prototype\<close>. The values that \<^verbatim>\<open>perRecipient[k]\<close>,
  \<^verbatim>\<open>x || 0\<close> and \<^verbatim>\<open>x + amount\<close> can produce: a number; a built-in function, named
  here by the property it is read from (\<^verbatim>\<open>constructor\<close> is \<^verbatim>\<open>Object\<close>); the object
  \<^verbatim>\<open>Object.prototype\<close>; and a text, which is the string form of a function
  (\<^verbatim>\<open>function Object() { [native code] }\<close>) or of an object (\<^verbatim>\<open>[object Object]\<close>)
  followed by the decimal forms of the numbers appended to it, in order.
\<close>

datatype TextBase = FunctionSource string | ObjectObject

datatype JSValue =
    Number rat
  | Text TextBase "rat list"
  | BuiltinFunction string
  | ObjectPrototype

text \<open>The members of \<^verbatim>\<open>Object.prototype\<close>.\<close>

definition objectPrototype :: "string \<Rightarrow> JSValue option" where
  "objectPrototype k =
    (if k = ''__proto__'' then Some ObjectPrototype
     else if k \<in> set [''constructor'', ''hasOwnProperty'', ''isPrototypeOf'',
                       ''propertyIsEnumerable'', ''toLocaleString'', ''toString'', ''valueOf'',
                       ''__defineGetter__'', ''__defineSetter__'', ''__lookupGetter__'',
                       ''__lookupSetter__'']
     then Some (BuiltinFunction k)
     else None)"

text \<open>\<^verbatim>\<open>obj[k]\<close>: the own property, else the inherited one, else \<^verbatim>\<open>undefined\<close>
  (\<open>None\<close>).\<close>

definition getProp :: "(string \<rightharpoonup> JSValue) \<Rightarrow> string \<Rightarrow> JSValue option" where
  "getProp obj k = (case obj k of Some v \<Rightarrow> Some v | None \<Rightarrow> objectPrototype k)"

text \<open>\<^verbatim>\<open>obj[k] = v\<close> for a number or a text \<open>v\<close>: an own property is created or
  overwritten, except that without an own \<^verbatim>\<open>__proto__\<close> the assignment reaches the
  inherited setter, which ignores a value that is not an object.\<close>

definition setProp :: "(string \<rightharpoonup> JSValue) \<Rightarrow> string \<Rightarrow> JSValue \<Rightarrow> (string \<rightharpoonup> JSValue)" where
  "setProp obj k v = (if k = ''__proto__'' \<and> obj k = None then obj else obj(k \<mapsto> v))"

fun truthy :: "JSValue \<Rightarrow> bool" where
  "truthy (Number n) = (n \<noteq> 0)"
| "truthy (Text b as) = True"
| "truthy (BuiltinFunction f) = True"
| "truthy ObjectPrototype = True"

text \<open>\<^verbatim>\<open>x || 0\<close>.\<close>

definition orZero :: "JSValue option \<Rightarrow> JSValue" where
  "orZero x = (case x of None \<Rightarrow> Number 0 | Some v \<Rightarrow> if truthy v then v else Number 0)"

text \<open>\<^verbatim>\<open>x + amount\<close> for a number \<^verbatim>\<open>amount\<close>: addition on a number, concatenation of
  the string forms otherwise.\<close>

fun jsPlus :: "JSValue \<Rightarrow> rat \<Rightarrow> JSValue" where
  "jsPlus (Number n) a = Number (n + a)"
| "jsPlus (Text b as) a = Text b (as @ [a])"
| "jsPlus (BuiltinFunction f) a = Text (FunctionSource f) [a]"
| "jsPlus ObjectPrototype a = Text ObjectObject [a]"

text \<open>\<^verbatim>\<open>x > limit\<close> for a number \<^verbatim>\<open>limit\<close>: a text that starts with \<^verbatim>\<open>function\<close> or
  \<^verbatim>\<open>[object\<close> converts to \<^verbatim>\<open>NaN\<close>, as do a function and an object, and no comparison
  with \<^verbatim>\<open>NaN\<close> holds.\<close>

fun jsGreater :: "JSValue \<Rightarrow> rat \<Rightarrow> bool" where
  "jsGreater (Number n) l = (n > l)"
| "jsGreater (Text b as) l = False"
| "jsGreater (BuiltinFunction f) l = False"
| "jsGreater ObjectPrototype l = False"

subsection \<open>Data model (\<^verbatim>\<open>config.ts\<close>, \<^verbatim>\<open>policy.ts\<close>)\<close>

record PaymentPolicy =
  maxPerTransaction :: rat
  dailyLimit :: rat
  weeklyLimit :: "rat option"
  monthlyLimit :: "rat option"
  maxTransactionsPerHour :: "int option"
  perRecipientDailyLimit :: "rat option"
  approvedRecipients :: "string list option"
  blockedRecipients :: "string list option"
  requireDryRun :: "bool option"
  autoApproveUnder :: "rat option"
  simulateBeforePay :: "bool option"

record SpendingRecord =
  timestamp :: int
  amount :: rat
  recipient :: string

record SpendingState =
  date :: string
  weekStart :: string
  monthStart :: string
  dailySpent :: rat
  weeklySpent :: rat
  monthlySpent :: rat
  transactions :: int
  recentTransactions :: "SpendingRecord list"
  perRecipient :: "string \<rightharpoonup> JSValue"

subsection \<open>The clock and \<^verbatim>\<open>getDateKeys\<close>\<close>

text \<open>
  What a method call reads from the system: \<^verbatim>\<open>Date.now()\<close>, the milliseconds since
  1970-01-01T00:00Z, and the offset of the local time zone, local time minus UTC in
  minutes (taken as fixed: no change of daylight saving within the week computed).
  The methods of \<^verbatim>\<open>Date\<close> that \<^verbatim>\<open>getDateKeys\<close> calls are modelled on it:
  \<^verbatim>\<open>toISOString\<close> works in UTC, while \<^verbatim>\<open>getDay\<close>, \<^verbatim>\<open>getDate\<close>, \<^verbatim>\<open>getMonth\<close>,
  \<^verbatim>\<open>getFullYear\<close> and \<^verbatim>\<open>setDate\<close> work in local time.
\<close>

record Clock =
  now :: int
  utcOffsetMinutes :: int

text \<open>The civil date of a day number (days since 1970-01-01) in the proleptic Gregorian
  calendar, through eras of 400 years that start on 1 March.\<close>

definition era :: "int \<Rightarrow> int" where
  "era days = (days + 719468) div 146097"

definition dayOfEra :: "int \<Rightarrow> int" where
  "dayOfEra days = (days + 719468) mod 146097"

definition yearOfEra :: "int \<Rightarrow> int" where
  "yearOfEra doe = (doe - doe div 1460 + doe div 36524 - doe div 146096) div 365"

definition dayOfYear :: "int \<Rightarrow> int" where
  "dayOfYear doe = doe - (365 * yearOfEra doe + yearOfEra doe div 4 - yearOfEra doe div 100)"

definition monthIndex :: "int \<Rightarrow> int" where
  "monthIndex doy = (5 * doy + 2) div 153"

definition civilDay :: "int \<Rightarrow> int" where
  "civilDay days =
     dayOfYear (dayOfEra days) - (153 * monthIndex (dayOfYear (dayOfEra days)) + 2) div 5 + 1"

definition civilMonth :: "int \<Rightarrow> int" where
  "civilMonth days =
     (if monthIndex (dayOfYear (dayOfEra days)) < 10
      then monthIndex (dayOfYear (dayOfEra days)) + 3
      else monthIndex (dayOfYear (dayOfEra days)) - 9)"

definition civilYear :: "int \<Rightarrow> int" where
  "civilYear days =
     yearOfEra (dayOfEra days) + era days * 400 + (if civilMonth days \<le> 2 then 1 else 0)"

text \<open>\<^verbatim>\<open>String(n)\<close> for an integer and \<^verbatim>\<open>padStart\<close>.\<close>

fun showNat :: "nat \<Rightarrow> string" where
  "showNat n = (if n < 10 then [''0123456789'' ! n]
                else showNat (n div 10) @ [''0123456789'' ! (n mod 10)])"

declare showNat.simps [simp del]

definition String :: "int \<Rightarrow> string" where
  "String i = (if i < 0 then CHR ''-'' # showNat (nat (- i)) else showNat (nat i))"

definition padStart :: "nat \<Rightarrow> char \<Rightarrow> string \<Rightarrow> string" where
  "padStart n c s = replicate (n - length s) c @ s"

text \<open>\<^verbatim>\<open>new Date(ms).toISOString().split('T')[0]\<close>, for the years 0000 to 9999.\<close>

definition toISODate :: "int \<Rightarrow> string" where
  "toISODate ms =
     padStart 4 (CHR ''0'') (String (civilYear (ms div 86400000))) @ ''-''
       @ padStart 2 (CHR ''0'') (String (civilMonth (ms div 86400000))) @ ''-''
       @ padStart 2 (CHR ''0'') (String (civilDay (ms div 86400000)))"

definition localDays :: "Clock \<Rightarrow> int" where
  "localDays clk = (now clk + utcOffsetMinutes clk * 60000) div 86400000"

text \<open>\<^verbatim>\<open>getDay()\<close>: 0 is Sunday; 1970-01-01 was a Thursday.\<close>

definition getDay :: "Clock \<Rightarrow> int" where
  "getDay clk = (localDays clk + 4) mod 7"

definition getDate :: "Clock \<Rightarrow> int" where
  "getDate clk = civilDay (localDays clk)"

definition getMonth :: "Clock \<Rightarrow> int" where
  "getMonth clk = civilMonth (localDays clk) - 1"

definition getFullYear :: "Clock \<Rightarrow> int" where
  "getFullYear clk = civilYear (localDays clk)"

text \<open>\<^verbatim>\<open>setDate(d)\<close> on a copy of the date: the instant of the same local time on day
  \<open>d\<close> of the local month, days below 1 counting back into the month before.\<close>

definition setDate :: "Clock \<Rightarrow> int \<Rightarrow> int" where
  "setDate clk dayOfMonth = now clk + (dayOfMonth - getDate clk) * 86400000"

record DateKeys =
  date_key :: string
  weekStart_key :: string
  monthStart_key :: string

definition getDateKeys :: "Clock \<Rightarrow> DateKeys" where
  "getDateKeys clk =
    (let date = toISODate (now clk);
         dayOfWeek = getDay clk;
         mondayOffset = (if dayOfWeek = 0 then - 6 else 1 - dayOfWeek);
         monday = setDate clk (getDate clk + mondayOffset);
         weekStart = toISODate monday;
         monthStart = String (getFullYear clk) @ ''-''
                        @ padStart 2 (CHR ''0'') (String (getMonth clk + 1)) @ ''-01''
     in \<lparr>date_key = date, weekStart_key = weekStart, monthStart_key = monthStart\<rparr>)"

text \<open>The file at \<^verbatim>\<open>spendingPath\<close>: absent, not parseable as JSON, or a saved state.\<close>

datatype SpendingFile = Missing | Corrupted | Stored SpendingState

record PolicyEnforcer =
  policy :: PaymentPolicy
  state :: SpendingState
  spendingFile :: SpendingFile

text \<open>The reasons of a denial, in the order of the templates in \<^verbatim>\<open>checkPayment\<close>:
  amount and limit; current total and limit (daily, weekly, monthly); count and limit;
  recipient, the value of \<^verbatim>\<open>recipientSpent\<close> and the limit; the recipient.\<close>

datatype Reason =
    ExceedsPerTransaction rat rat
  | ExceedsDailyLimit rat rat
  | ExceedsWeeklyLimit rat rat
  | ExceedsMonthlyLimit rat rat
  | VelocityLimitExceeded int int
  | PerRecipientLimitExceeded string JSValue rat
  | RecipientBlocked string
  | NotInWhitelist string

record CheckResult =
  allowed :: bool
  reason :: "Reason option"

definition deny :: "Reason \<Rightarrow> CheckResult" where
  "deny r = \<lparr>allowed = False, reason = Some r\<rparr>"

definition allow :: CheckResult where
  "allow = \<lparr>allowed = True, reason = None\<rparr>"

subsection \<open>Loading and saving the ledger\<close>

text \<open>The block ``reset if new period'', which \<^verbatim>\<open>loadState\<close> applies to the parsed file
  and \<^verbatim>\<open>recordPayment\<close> to \<^verbatim>\<open>this.state\<close>, statement by statement.\<close>

definition resetIfNewPeriod :: "DateKeys \<Rightarrow> SpendingState \<Rightarrow> SpendingState" where
  "resetIfNewPeriod k s =
    (let s1 = (if date s \<noteq> date_key k
               then s\<lparr>date := date_key k, dailySpent := 0, transactions := 0,
                      perRecipient := Map.empty\<rparr>
               else s);
         s2 = (if weekStart s1 \<noteq> weekStart_key k
               then s1\<lparr>weekStart := weekStart_key k, weeklySpent := 0\<rparr>
               else s1);
         s3 = (if monthStart s2 \<noteq> monthStart_key k
               then s2\<lparr>monthStart := monthStart_key k, monthlySpent := 0\<rparr>
               else s2)
     in s3)"

definition defaultState :: "DateKeys \<Rightarrow> SpendingState" where
  "defaultState k =
    \<lparr>date = date_key k, weekStart = weekStart_key k, monthStart = monthStart_key k,
     dailySpent = 0, weeklySpent = 0, monthlySpent = 0, transactions = 0,
     recentTransactions = [], perRecipient = Map.empty\<rparr>"

fun loadState :: "SpendingFile \<Rightarrow> Clock \<Rightarrow> SpendingState" where
  "loadState Missing clk = defaultState (getDateKeys clk)"
| "loadState Corrupted clk = defaultState (getDateKeys clk)"
| "loadState (Stored data) clk =
    (let data1 = resetIfNewPeriod (getDateKeys clk) data;
         oneHourAgo = now clk - 60 * 60 * 1000
     in data1\<lparr>recentTransactions :=
                 filter (\<lambda>t. timestamp t > oneHourAgo) (recentTransactions data1)\<rparr>)"

text \<open>The constructor, as the instance's methods see its result: the policy is what the
  policy object passed to it holds (the object itself is kept by reference, see the
  subsection on shared policy objects below), the ledger is loaded from the file.\<close>

definition new_PolicyEnforcer :: "PaymentPolicy \<Rightarrow> SpendingFile \<Rightarrow> Clock \<Rightarrow> PolicyEnforcer" where
  "new_PolicyEnforcer p file clk = \<lparr>policy = p, state = loadState file clk, spendingFile = file\<rparr>"

definition saveState :: "PolicyEnforcer \<Rightarrow> PolicyEnforcer" where
  "saveState e = e\<lparr>spendingFile := Stored (state e)\<rparr>"

subsection \<open>\<^verbatim>\<open>checkPayment\<close>\<close>

definition checkPayment :: "PolicyEnforcer \<Rightarrow> Clock \<Rightarrow> rat \<Rightarrow> string \<Rightarrow> CheckResult" where
  "checkPayment e clk amountUsdc rcpt =
    (let p = policy e; s = state e;
         normalizedRecipient = toLowerCase rcpt;
         oneHourAgo = now clk - 60 * 60 * 1000;
         recentCount = int (length (filter (\<lambda>t. timestamp t > oneHourAgo) (recentTransactions s)));
         recipientSpent = orZero (getProp (perRecipient s) normalizedRecipient)
     in
     if amountUsdc > maxPerTransaction p
     then deny (ExceedsPerTransaction amountUsdc (maxPerTransaction p))
     else if dailySpent s + amountUsdc > dailyLimit p
     then deny (ExceedsDailyLimit (dailySpent s) (dailyLimit p))
     else if weeklyLimit p \<noteq> None \<and> weeklySpent s + amountUsdc > the (weeklyLimit p)
     then deny (ExceedsWeeklyLimit (weeklySpent s) (the (weeklyLimit p)))
     else if monthlyLimit p \<noteq> None \<and> monthlySpent s + amountUsdc > the (monthlyLimit p)
     then deny (ExceedsMonthlyLimit (monthlySpent s) (the (monthlyLimit p)))
     else if maxTransactionsPerHour p \<noteq> None \<and> recentCount \<ge> the (maxTransactionsPerHour p)
     then deny (VelocityLimitExceeded recentCount (the (maxTransactionsPerHour p)))
     else if perRecipientDailyLimit p \<noteq> None
             \<and> jsGreater (jsPlus recipientSpent amountUsdc) (the (perRecipientDailyLimit p))
     then deny (PerRecipientLimitExceeded rcpt recipientSpent (the (perRecipientDailyLimit p)))
     else if (case blockedRecipients p of None \<Rightarrow> False
              | Some bl \<Rightarrow> length bl > 0
                  \<and> list_ex (\<lambda>addr. toLowerCase addr = normalizedRecipient) bl)
     then deny (RecipientBlocked rcpt)
     else if (case approvedRecipients p of None \<Rightarrow> False
              | Some al \<Rightarrow> length al > 0
                  \<and> \<not> list_ex (\<lambda>addr. toLowerCase addr = normalizedRecipient) al)
     then deny (NotInWhitelist rcpt)
     else allow)"

subsection \<open>\<^verbatim>\<open>recordPayment\<close>, \<^verbatim>\<open>getStatus\<close>, \<^verbatim>\<open>requiresApproval\<close>, \<^verbatim>\<open>freeze\<close>\<close>

definition recordPayment :: "PolicyEnforcer \<Rightarrow> Clock \<Rightarrow> rat \<Rightarrow> string \<Rightarrow> PolicyEnforcer" where
  "recordPayment e clk amountUsdc rcpt =
    (let normalizedRecipient = toLowerCase rcpt;
         s = resetIfNewPeriod (getDateKeys clk) (state e);
         pushed = recentTransactions s
                    @ [\<lparr>timestamp = now clk, amount = amountUsdc, recipient = normalizedRecipient\<rparr>];
         oneHourAgo = now clk - 60 * 60 * 1000;
         s' = s\<lparr>dailySpent := dailySpent s + amountUsdc,
                weeklySpent := weeklySpent s + amountUsdc,
                monthlySpent := monthlySpent s + amountUsdc,
                transactions := transactions s + 1,
                perRecipient := setProp (perRecipient s) normalizedRecipient
                   (jsPlus (orZero (getProp (perRecipient s) normalizedRecipient)) amountUsdc),
                recentTransactions := filter (\<lambda>t. timestamp t > oneHourAgo) pushed\<rparr>
     in saveState (e\<lparr>state := s'\<rparr>))"

record StatusWindow =
  spent :: rat
  limit :: rat
  remaining :: rat

record DailyStatus = StatusWindow +
  transactions_d :: int

record VelocityStatus =
  count_v :: int
  limit_v :: int
  remaining_v :: int

record Status =
  daily :: DailyStatus
  weekly :: "StatusWindow option"
  monthly :: "StatusWindow option"
  velocity :: "VelocityStatus option"
  policy_s :: PaymentPolicy

definition getStatus :: "PolicyEnforcer \<Rightarrow> Clock \<Rightarrow> Status" where
  "getStatus e clk =
    (let p = policy e; s = state e;
         oneHourAgo = now clk - 60 * 60 * 1000;
         recentCount = int (length (filter (\<lambda>t. timestamp t > oneHourAgo) (recentTransactions s)))
     in \<lparr>daily = \<lparr>spent = dailySpent s, limit = dailyLimit p,
                   remaining = max 0 (dailyLimit p - dailySpent s),
                   transactions_d = transactions s\<rparr>,
         weekly = (case weeklyLimit p of None \<Rightarrow> None
                   | Some w \<Rightarrow> Some \<lparr>spent = weeklySpent s, limit = w,
                                      remaining = max 0 (w - weeklySpent s)\<rparr>),
         monthly = (case monthlyLimit p of None \<Rightarrow> None
                    | Some m \<Rightarrow> Some \<lparr>spent = monthlySpent s, limit = m,
                                       remaining = max 0 (m - monthlySpent s)\<rparr>),
         velocity = (case maxTransactionsPerHour p of None \<Rightarrow> None
                     | Some n \<Rightarrow> Some \<lparr>count_v = recentCount, limit_v = n,
                                        remaining_v = max 0 (n - recentCount)\<rparr>),
         policy_s = p\<rparr>)"

definition requiresApproval :: "PolicyEnforcer \<Rightarrow> rat \<Rightarrow> bool" where
  "requiresApproval e amountUsdc =
    (case autoApproveUnder (policy e) of None \<Rightarrow> True | Some u \<Rightarrow> amountUsdc \<ge> u)"

text \<open>\<^verbatim>\<open>freeze()\<close> assigns to two fields of the policy object and calls \<^verbatim>\<open>saveState()\<close>,
  which writes the ledger. What the other holders of the policy object see of it is in
  the subsection on shared policy objects below.\<close>

definition freeze :: "PolicyEnforcer \<Rightarrow> PolicyEnforcer" where
  "freeze e = saveState (e\<lparr>policy := (policy e)\<lparr>maxPerTransaction := 0, dailyLimit := 0\<rparr>\<rparr>)"

subsection \<open>Method calls on an instance\<close>

text \<open>A call of a public method at a clock reading gives the method's result and the
  instance after the call. \<^verbatim>\<open>checkPayment\<close>, \<^verbatim>\<open>getStatus\<close> and \<^verbatim>\<open>requiresApproval\<close>
  assign to no field and never call \<^verbatim>\<open>saveState()\<close>.\<close>

datatype Call =
    CheckPayment rat string
  | RecordPayment rat string
  | GetStatus
  | RequiresApproval rat
  | Freeze

datatype Output =
    Checked CheckResult
  | Recorded
  | StatusOf Status
  | Approval bool
  | Frozen

fun call :: "Clock \<Rightarrow> Call \<Rightarrow> PolicyEnforcer \<Rightarrow> Output \<times> PolicyEnforcer" where
  "call clk (CheckPayment a r) e = (Checked (checkPayment e clk a r), e)"
| "call clk (RecordPayment a r) e = (Recorded, recordPayment e clk a r)"
| "call clk GetStatus e = (StatusOf (getStatus e clk), e)"
| "call clk (RequiresApproval a) e = (Approval (requiresApproval e a), e)"
| "call clk Freeze e = (Frozen, freeze e)"

text \<open>A sequence of calls on one instance.\<close>

fun calls :: "PolicyEnforcer \<Rightarrow> (Clock \<times> Call) list \<Rightarrow> PolicyEnforcer" where
  "calls e [] = e"
| "calls e ((clk, c) # cs) = calls (snd (call clk c e)) cs"




subsection \<open>Policy objects shared between instances\<close>

text \<open>
  The constructor stores the caller's policy object (\<^verbatim>\<open>this.policy = policy\<close>, by default
  the module's \<^verbatim>\<open>DEFAULT_POLICY\<close>), and \<^verbatim>\<open>freeze()\<close> assigns to the fields of that
  object. The policy objects of a process are a heap; a handle is an instance with the
  address of its policy object, and \<open>self\<close> is the instance as its methods see it. A
  call writes the policy it leaves back to the object, where every instance that holds
  the object reads it.
\<close>

type_synonym PolicyHeap = "nat \<Rightarrow> PaymentPolicy"

record Handle =
  policyRef :: nat
  ledger :: SpendingState
  ledgerFile :: SpendingFile

definition self :: "PolicyHeap \<Rightarrow> Handle \<Rightarrow> PolicyEnforcer" where
  "self h i = \<lparr>policy = h (policyRef i), state = ledger i, spendingFile = ledgerFile i\<rparr>"

definition construct :: "nat \<Rightarrow> SpendingFile \<Rightarrow> Clock \<Rightarrow> Handle" where
  "construct r fl clk = \<lparr>policyRef = r, ledger = loadState fl clk, ledgerFile = fl\<rparr>"

definition invoke :: "PolicyHeap \<Rightarrow> Handle \<Rightarrow> Clock \<Rightarrow> Call \<Rightarrow> Output \<times> PolicyHeap \<times> Handle" where
  "invoke h i clk c =
    (case call clk c (self h i) of
       (out, e') \<Rightarrow> (out, h(policyRef i := policy e'),
                     i\<lparr>ledger := state e', ledgerFile := spendingFile e'\<rparr>))"

section \<open>The receipt store (\<^verbatim>\<open>receipts.ts\<close>)\<close>

text \<open>
  A \<^verbatim>\<open>PaymentReceipt\<close> (\<^verbatim>\<open>config.ts\<close>). The fields \<^verbatim>\<open>id\<close>, \<^verbatim>\<open>timestamp\<close>, \<^verbatim>\<open>amount\<close> and
  \<^verbatim>\<open>recipient\<close> carry the suffix \<open>_r\<close>, their names being taken already.
  \<^verbatim>\<open>facilitatorResponse: unknown\<close> is kept as an opaque string.
\<close>

datatype NetworkName = base | ethereum | arbitrum | optimism | polygon | baseSepolia

datatype ReceiptStatus = Success | Failed | Pending | Blocked

record PaymentReceipt =
  id_r :: string
  timestamp_r :: string
  url :: string
  amount_r :: string
  amountRaw :: string
  currency :: string
  network :: NetworkName
  recipient_r :: string
  txHash :: "string option"
  status :: ReceiptStatus
  blockReason :: "string option"
  facilitatorResponse :: "string option"

text \<open>\<^verbatim>\<open>Omit<PaymentReceipt, 'id' | 'timestamp' | 'status'>\<close>, the argument of
  \<^verbatim>\<open>createReceipt\<close>.\<close>

record ReceiptFields =
  url_f :: string
  amount_f :: string
  amountRaw_f :: string
  currency_f :: string
  network_f :: NetworkName
  recipient_f :: string
  txHash_f :: "string option"
  blockReason_f :: "string option"
  facilitatorResponse_f :: "string option"

text \<open>\<^verbatim>\<open>Partial<PaymentReceipt>\<close>, the argument of \<^verbatim>\<open>updateReceipt\<close>: \<open>None\<close> is a key
  the object does not have; for an optional field, \<open>Some None\<close> is the key present with
  the value \<^verbatim>\<open>undefined\<close>.\<close>

record ReceiptUpdate =
  id_u :: "string option"
  timestamp_u :: "string option"
  url_u :: "string option"
  amount_u :: "string option"
  amountRaw_u :: "string option"
  currency_u :: "string option"
  network_u :: "NetworkName option"
  recipient_u :: "string option"
  txHash_u :: "string option option"
  status_u :: "ReceiptStatus option"
  blockReason_u :: "string option option"
  facilitatorResponse_u :: "string option option"

datatype ReceiptsFile = NoReceiptsFile | CorruptReceipts | StoredReceipts "PaymentReceipt list"

record ReceiptStore =
  receipts :: "PaymentReceipt list"
  receiptsFile :: ReceiptsFile

fun loadReceipts :: "ReceiptsFile \<Rightarrow> PaymentReceipt list" where
  "loadReceipts NoReceiptsFile = []"
| "loadReceipts CorruptReceipts = []"
| "loadReceipts (StoredReceipts rs) = rs"

definition new_ReceiptStore :: "ReceiptsFile \<Rightarrow> ReceiptStore" where
  "new_ReceiptStore file = \<lparr>receipts = loadReceipts file, receiptsFile = file\<rparr>"

definition saveReceipts :: "ReceiptStore \<Rightarrow> ReceiptStore" where
  "saveReceipts st = st\<lparr>receiptsFile := StoredReceipts (receipts st)\<rparr>"

text \<open>\<^verbatim>\<open>createReceipt\<close>; \<open>uuid\<close> is what \<^verbatim>\<open>randomUUID()\<close> returns and \<open>isoNow\<close> what
  \<^verbatim>\<open>new Date().toISOString()\<close> returns. The result is the receipt and the store after.\<close>

definition createReceipt ::
  "ReceiptStore \<Rightarrow> string \<Rightarrow> string \<Rightarrow> ReceiptFields \<Rightarrow> PaymentReceipt \<times> ReceiptStore" where
  "createReceipt st uuid isoNow partial =
    (let receipt = \<lparr>id_r = uuid, timestamp_r = isoNow, url = url_f partial,
                     amount_r = amount_f partial, amountRaw = amountRaw_f partial,
                     currency = currency_f partial, network = network_f partial,
                     recipient_r = recipient_f partial, txHash = txHash_f partial,
                     status = Pending, blockReason = blockReason_f partial,
                     facilitatorResponse = facilitatorResponse_f partial\<rparr>
     in (receipt, saveReceipts (st\<lparr>receipts := receipts st @ [receipt]\<rparr>)))"

fun findIndex :: "('a \<Rightarrow> bool) \<Rightarrow> 'a list \<Rightarrow> nat option" where
  "findIndex P [] = None"
| "findIndex P (x # xs) = (if P x then Some 0 else map_option Suc (findIndex P xs))"

text \<open>The object spread \<^verbatim>\<open>{ ...receipt, ...update }\<close>: every key of the update wins.\<close>

definition spread :: "PaymentReceipt \<Rightarrow> ReceiptUpdate \<Rightarrow> PaymentReceipt" where
  "spread r u =
    \<lparr>id_r = (case id_u u of None \<Rightarrow> id_r r | Some v \<Rightarrow> v),
     timestamp_r = (case timestamp_u u of None \<Rightarrow> timestamp_r r | Some v \<Rightarrow> v),
     url = (case url_u u of None \<Rightarrow> url r | Some v \<Rightarrow> v),
     amount_r = (case amount_u u of None \<Rightarrow> amount_r r | Some v \<Rightarrow> v),
     amountRaw = (case amountRaw_u u of None \<Rightarrow> amountRaw r | Some v \<Rightarrow> v),
     currency = (case currency_u u of None \<Rightarrow> currency r | Some v \<Rightarrow> v),
     network = (case network_u u of None \<Rightarrow> network r | Some v \<Rightarrow> v),
     recipient_r = (case recipient_u u of None \<Rightarrow> recipient_r r | Some v \<Rightarrow> v),
     txHash = (case txHash_u u of None \<Rightarrow> txHash r | Some v \<Rightarrow> v),
     status = (case status_u u of None \<Rightarrow> status r | Some v \<Rightarrow> v),
     blockReason = (case blockReason_u u of None \<Rightarrow> blockReason r | Some v \<Rightarrow> v),
     facilitatorResponse =
       (case facilitatorResponse_u u of None \<Rightarrow> facilitatorResponse r | Some v \<Rightarrow> v)\<rparr>"

text \<open>\<^verbatim>\<open>updateReceipt\<close>: \<open>None\<close> is the \<^verbatim>\<open>null\<close> of an unknown id.\<close>

definition updateReceipt ::
  "ReceiptStore \<Rightarrow> string \<Rightarrow> ReceiptUpdate \<Rightarrow> PaymentReceipt option \<times> ReceiptStore" where
  "updateReceipt st ident update =
    (case findIndex (\<lambda>r. id_r r = ident) (receipts st) of
       None \<Rightarrow> (None, st)
     | Some idx \<Rightarrow>
         (let merged = spread (receipts st ! idx) update;
              st' = saveReceipts (st\<lparr>receipts := (receipts st)[idx := merged]\<rparr>)
          in (Some (receipts st' ! idx), st')))"

definition recordBlocked ::
  "ReceiptStore \<Rightarrow> string \<Rightarrow> string \<Rightarrow> string \<Rightarrow> string \<Rightarrow> string \<Rightarrow> string
     \<Rightarrow> NetworkName \<Rightarrow> string \<Rightarrow> PaymentReceipt \<times> ReceiptStore" where
  "recordBlocked st uuid isoNow url' amount' amountRaw' recipient' network' reason' =
    (let receipt = \<lparr>id_r = uuid, timestamp_r = isoNow, url = url', amount_r = amount',
                     amountRaw = amountRaw', currency = ''USDC'', network = network',
                     recipient_r = recipient', txHash = None, status = Blocked,
                     blockReason = Some reason', facilitatorResponse = None\<rparr>
     in (receipt, saveReceipts (st\<lparr>receipts := receipts st @ [receipt]\<rparr>)))"

text \<open>A sequence of \<^verbatim>\<open>updateReceipt\<close> calls on one store.\<close>

fun updates :: "ReceiptStore \<Rightarrow> (string \<times> ReceiptUpdate) list \<Rightarrow> ReceiptStore" where
  "updates st [] = st"
| "updates st ((ident, u) # us) = updates (snd (updateReceipt st ident u)) us"

text \<open>\<^verbatim>\<open>String.prototype.startsWith\<close>.\<close>

definition startsWith :: "string \<Rightarrow> string \<Rightarrow> bool" where
  "startsWith s p = (take (length p) s = p)"

text \<open>\<^verbatim>\<open>getToday\<close> and \<^verbatim>\<open>getTodayTotal\<close>; \<open>today\<close> is
  \<^verbatim>\<open>new Date().toISOString().split('T')[0]\<close>, the current UTC date, and \<open>parseFloat\<close> the
  built-in of that name, a parameter of the model.\<close>

definition getToday :: "ReceiptStore \<Rightarrow> string \<Rightarrow> PaymentReceipt list" where
  "getToday st today = filter (\<lambda>r. startsWith (timestamp_r r) today) (receipts st)"

definition getTodayTotal :: "(string \<Rightarrow> rat) \<Rightarrow> ReceiptStore \<Rightarrow> string \<Rightarrow> rat" where
  "getTodayTotal parseFloat st today =
    foldl (\<lambda>sum r. sum + parseFloat (amount_r r)) 0
      (filter (\<lambda>r. status r = Success) (getToday st today))"

section \<open>Specification-side definitions and example inputs\<close>

subsection \<open>The order of the checks\<close>

text \<open>Two addresses are the same when they agree after \<^verbatim>\<open>toLowerCase\<close>; a recipient is
  listed when a list is set and holds the same address.\<close>

definition same_address :: "string \<Rightarrow> string \<Rightarrow> bool" where
  "same_address a b = (toLowerCase a = toLowerCase b)"

definition listed :: "string list option \<Rightarrow> string \<Rightarrow> bool" where
  "listed l r = (case l of None \<Rightarrow> False | Some xs \<Rightarrow> \<exists>a\<in>set xs. same_address a r)"

text \<open>The eight checks in their order, what each reports when it fails, and the decision
  as the first failure in that order.\<close>

datatype Check =
    PerTransactionCap | DailyLimit | WeeklyLimit | MonthlyLimit
  | VelocityLimit | PerRecipientDailyLimit | Blacklist | Whitelist

definition evaluation_order :: "Check list" where
  "evaluation_order = [PerTransactionCap, DailyLimit, WeeklyLimit, MonthlyLimit,
                       VelocityLimit, PerRecipientDailyLimit, Blacklist, Whitelist]"

text \<open>The amount the ledger holds for a recipient today, 0 when it holds none, and the
  number of recorded transactions of the trailing hour.\<close>

definition spentOn :: "SpendingState \<Rightarrow> string \<Rightarrow> rat" where
  "spentOn s r = (case perRecipient s (toLowerCase r) of Some (Number v) \<Rightarrow> v | _ \<Rightarrow> 0)"

text \<open>A key that names a member of \<^verbatim>\<open>Object.prototype\<close>; and a recipient whose entry in
  the ledger is a number, or is absent under a key that names no such member.\<close>

definition inheritedKey :: "string \<Rightarrow> bool" where
  "inheritedKey k = (objectPrototype k \<noteq> None)"

definition numericEntry :: "SpendingState \<Rightarrow> string \<Rightarrow> bool" where
  "numericEntry s r =
    (case perRecipient s (toLowerCase r) of
       None \<Rightarrow> \<not> inheritedKey (toLowerCase r)
     | Some (Number v) \<Rightarrow> True
     | Some _ \<Rightarrow> False)"

definition inTrailingHour :: "SpendingState \<Rightarrow> int \<Rightarrow> int" where
  "inTrailingHour s t = int (length [x \<leftarrow> recentTransactions s. t - timestamp x < 3600000])"

fun failure :: "PolicyEnforcer \<Rightarrow> Clock \<Rightarrow> rat \<Rightarrow> string \<Rightarrow> Check \<Rightarrow> Reason option" where
  "failure e clk a r PerTransactionCap =
     (if a > maxPerTransaction (policy e)
      then Some (ExceedsPerTransaction a (maxPerTransaction (policy e))) else None)"
| "failure e clk a r DailyLimit =
     (if dailySpent (state e) + a > dailyLimit (policy e)
      then Some (ExceedsDailyLimit (dailySpent (state e)) (dailyLimit (policy e))) else None)"
| "failure e clk a r WeeklyLimit =
     (case weeklyLimit (policy e) of None \<Rightarrow> None
      | Some w \<Rightarrow> if weeklySpent (state e) + a > w
                  then Some (ExceedsWeeklyLimit (weeklySpent (state e)) w) else None)"
| "failure e clk a r MonthlyLimit =
     (case monthlyLimit (policy e) of None \<Rightarrow> None
      | Some m \<Rightarrow> if monthlySpent (state e) + a > m
                  then Some (ExceedsMonthlyLimit (monthlySpent (state e)) m) else None)"
| "failure e clk a r VelocityLimit =
     (case maxTransactionsPerHour (policy e) of None \<Rightarrow> None
      | Some n \<Rightarrow> if inTrailingHour (state e) (now clk) \<ge> n
                  then Some (VelocityLimitExceeded (inTrailingHour (state e) (now clk)) n)
                  else None)"
| "failure e clk a r PerRecipientDailyLimit =
     (case perRecipientDailyLimit (policy e) of None \<Rightarrow> None
      | Some l \<Rightarrow> if spentOn (state e) r + a > l
                  then Some (PerRecipientLimitExceeded r (Number (spentOn (state e) r)) l)
                  else None)"
| "failure e clk a r Blacklist =
     (if listed (blockedRecipients (policy e)) r then Some (RecipientBlocked r) else None)"
| "failure e clk a r Whitelist =
     (case approvedRecipients (policy e) of None \<Rightarrow> None
      | Some al \<Rightarrow> if al \<noteq> [] \<and> \<not> listed (Some al) r
                   then Some (NotInWhitelist r) else None)"

fun first_failure :: "Reason option list \<Rightarrow> Reason option" where
  "first_failure [] = None"
| "first_failure (Some x # cs) = Some x"
| "first_failure (None # cs) = first_failure cs"

definition checkPayment_spec :: "PolicyEnforcer \<Rightarrow> Clock \<Rightarrow> rat \<Rightarrow> string \<Rightarrow> CheckResult" where
  "checkPayment_spec e clk a r =
     (case first_failure (map (failure e clk a r) evaluation_order) of
        None \<Rightarrow> allow | Some x \<Rightarrow> deny x)"

subsection \<open>Example inputs\<close>

text \<open>The policy of the repository's tests, with one address on both lists; Tuesday
  2026-02-03, 12:00 UTC; an instance constructed then, without a ledger file.\<close>

definition policy1 :: PaymentPolicy where
  "policy1 = \<lparr>maxPerTransaction = 1, dailyLimit = 10, weeklyLimit = None, monthlyLimit = None,
     maxTransactionsPerHour = Some 10, perRecipientDailyLimit = None,
     approvedRecipients = Some [''0xApproved1'', ''0xBoth''],
     blockedRecipients = Some [''0xBlocked'', ''0xBOTH''],
     requireDryRun = None, autoApproveUnder = Some (1/10), simulateBeforePay = None\<rparr>"

definition keys1 :: DateKeys where
  "keys1 = \<lparr>date_key = ''2026-02-03'', weekStart_key = ''2026-02-02'',
            monthStart_key = ''2026-02-01''\<rparr>"

definition clock1 :: Clock where
  "clock1 = \<lparr>now = 1770120000000, utcOffsetMinutes = 0\<rparr>"

definition fresh1 :: PolicyEnforcer where
  "fresh1 = new_PolicyEnforcer policy1 Missing clock1"



subsection \<open>Limits\<close>




text \<open>A policy with a cap above its daily limit and nothing else set.\<close>

definition policy2 :: PaymentPolicy where
  "policy2 = \<lparr>maxPerTransaction = 100, dailyLimit = 10, weeklyLimit = None,
     monthlyLimit = None, maxTransactionsPerHour = None, perRecipientDailyLimit = None,
     approvedRecipients = None, blockedRecipients = None,
     requireDryRun = None, autoApproveUnder = None, simulateBeforePay = None\<rparr>"



text \<open>A policy whose only limit below the amount 30 is the per-recipient one.\<close>

definition policy4 :: PaymentPolicy where
  "policy4 = \<lparr>maxPerTransaction = 100, dailyLimit = 1000, weeklyLimit = None,
     monthlyLimit = None, maxTransactionsPerHour = None, perRecipientDailyLimit = Some 20,
     approvedRecipients = None, blockedRecipients = None,
     requireDryRun = None, autoApproveUnder = None, simulateBeforePay = None\<rparr>"

definition fresh4 :: PolicyEnforcer where
  "fresh4 = new_PolicyEnforcer policy4 Missing clock1"

text \<open>A process whose policy objects all hold \<open>policy1\<close>, with an instance on the object
  at address 0, constructed without a ledger file.\<close>

definition heap1 :: PolicyHeap where
  "heap1 = (\<lambda>r. policy1)"

definition handle1 :: Handle where
  "handle1 = construct 0 Missing clock1"

text \<open>The result, the heap and the handle after \<^verbatim>\<open>freeze()\<close> on that instance.\<close>

definition frozenProcess :: "Output \<times> PolicyHeap \<times> Handle" where
  "frozenProcess = invoke heap1 handle1 clock1 Freeze"


text \<open>A ledger last written on 2026-02-02 with the whole daily limit spent.\<close>

definition yesterday_state :: SpendingState where
  "yesterday_state =
    \<lparr>date = ''2026-02-02'', weekStart = ''2026-02-02'', monthStart = ''2026-02-01'',
     dailySpent = 10, weeklySpent = 10, monthlySpent = 10, transactions = 4,
     recentTransactions = [], perRecipient = [''0xr'' \<mapsto> Number 10]\<rparr>"

definition stale :: PolicyEnforcer where
  "stale = \<lparr>policy = policy2, state = yesterday_state, spendingFile = Stored yesterday_state\<rparr>"


subsection \<open>Totals\<close>









text \<open>The clock one day after \<open>clock1\<close>.\<close>

definition clock2 :: Clock where
  "clock2 = \<lparr>now = 1770206400000, utcOffsetMinutes = 0\<rparr>"

text \<open>Saturday 2026-01-31 at 12:00 UTC and at 23:30 UTC, in a time zone two hours ahead
  of UTC: 14:00 of the Saturday, and 01:30 of Sunday 1 February.\<close>

definition clock_noon_plus2 :: Clock where
  "clock_noon_plus2 = \<lparr>now = 1769860800000, utcOffsetMinutes = 120\<rparr>"

definition clock_night_plus2 :: Clock where
  "clock_night_plus2 = \<lparr>now = 1769902200000, utcOffsetMinutes = 120\<rparr>"




subsection \<open>Receipts\<close>

definition statuses :: "ReceiptStore \<Rightarrow> ReceiptStatus list" where
  "statuses st = map status (receipts st)"

text \<open>The status a receipt has after an update is merged into it.\<close>

definition newStatus :: "PaymentReceipt \<Rightarrow> ReceiptUpdate \<Rightarrow> ReceiptStatus" where
  "newStatus r u = (case status_u u of None \<Rightarrow> status r | Some s \<Rightarrow> s)"

text \<open>The UTC date of an ISO timestamp \<^verbatim>\<open>YYYY-MM-DDTHH:mm:ss.sssZ\<close>: what precedes the
  \<^verbatim>\<open>T\<close>.\<close>

definition utcDate :: "string \<Rightarrow> string" where
  "utcDate ts = takeWhile (\<lambda>c. c \<noteq> CHR ''T'') ts"

definition noUpdate :: ReceiptUpdate where
  "noUpdate = \<lparr>id_u = None, timestamp_u = None, url_u = None, amount_u = None,
              amountRaw_u = None, currency_u = None, network_u = None, recipient_u = None,
              txHash_u = None, status_u = None, blockReason_u = None,
              facilitatorResponse_u = None\<rparr>"

definition statusUpdate :: "ReceiptStatus \<Rightarrow> ReceiptUpdate" where
  "statusUpdate s = noUpdate\<lparr>status_u := Some s\<rparr>"

definition txHashUpdate :: "string \<Rightarrow> ReceiptUpdate" where
  "txHashUpdate h = noUpdate\<lparr>txHash_u := Some (Some h)\<rparr>"

definition fields1 :: "string \<Rightarrow> ReceiptFields" where
  "fields1 amt = \<lparr>url_f = ''https://api.example.com/data'', amount_f = amt,
                  amountRaw_f = ''500000'', currency_f = ''USDC'', network_f = base,
                  recipient_f = ''0x1234'', txHash_f = None, blockReason_f = None,
                  facilitatorResponse_f = None\<rparr>"

definition store0 :: ReceiptStore where
  "store0 = new_ReceiptStore NoReceiptsFile"

definition pendingStore :: ReceiptStore where
  "pendingStore = snd (createReceipt store0 ''id-1'' ''2026-02-03T10:00:00.000Z'' (fields1 ''0.50''))"

definition blockedStore :: ReceiptStore where
  "blockedStore = snd (recordBlocked store0 ''id-2'' ''2026-02-03T10:00:00.000Z''
     ''https://api.example.com/data'' ''5.00'' ''5000000'' ''0x1234'' base ''Exceeds daily limit'')"

definition exampleReceipt ::
  "string \<Rightarrow> string \<Rightarrow> ReceiptStatus \<Rightarrow> string \<Rightarrow> PaymentReceipt" where
  "exampleReceipt ident ts st amt =
    \<lparr>id_r = ident, timestamp_r = ts, url = ''https://api.example.com/data'',
     amount_r = amt, amountRaw = ''500000'', currency = ''USDC'', network = base,
     recipient_r = ''0x1234'', txHash = None, status = st, blockReason = None,
     facilitatorResponse = None\<rparr>"

text \<open>A store loaded from a file of five receipts: two successes of 2026-02-03, a pending
  one and a blocked one of the same day, and a success of the day before.\<close>

definition dayStore :: ReceiptStore where
  "dayStore = new_ReceiptStore (StoredReceipts
     [exampleReceipt ''a'' ''2026-02-02T23:59:59.000Z'' Success ''5.00'',
      exampleReceipt ''b'' ''2026-02-03T00:00:01.000Z'' Success ''1.50'',
      exampleReceipt ''c'' ''2026-02-03T09:00:00.000Z'' Pending ''0.50'',
      exampleReceipt ''d'' ''2026-02-03T09:30:00.000Z'' Blocked ''5.00'',
      exampleReceipt ''e'' ''2026-02-03T11:00:00.000Z'' Success ''0.50''])"

text \<open>The values of \<^verbatim>\<open>parseFloat\<close> on the amounts of the example receipts.\<close>

definition amountOf :: "string \<Rightarrow> rat" where
  "amountOf s = (if s = ''5.00'' then 5 else if s = ''1.50'' then 3/2
                 else if s = ''0.50'' then 1/2 else 0)"

section \<open>Lemmas and theorems\<close>

subsection \<open>Evaluating the clock\<close>

lemma showNat_0: "showNat 0 = ''0''"
  and showNat_1: "showNat (Suc 0) = ''1''"
  by (simp_all add: showNat.simps)

lemma showNat_numeral:
  "showNat (numeral k) =
     (if (numeral k :: nat) < 10 then [''0123456789'' ! numeral k]
      else showNat (numeral k div 10) @ [''0123456789'' ! (numeral k mod 10)])"
  by (rule showNat.simps)

lemmas clock_defs = getDateKeys_def getDay_def getDate_def getMonth_def getFullYear_def
  setDate_def localDays_def era_def dayOfEra_def yearOfEra_def dayOfYear_def monthIndex_def
  civilDay_def civilMonth_def civilYear_def Let_def

lemmas string_defs = toISODate_def String_def padStart_def showNat_0 showNat_1
  showNat_numeral era_def dayOfEra_def yearOfEra_def dayOfYear_def monthIndex_def
  civilDay_def civilMonth_def civilYear_def

lemma clock1_now: "now clock1 = 1770120000000"
  by (simp add: clock1_def)

lemma clock1_keys: "getDateKeys clock1 = keys1"
  by (simp add: clock_defs clock1_def keys1_def) (simp add: string_defs)

lemma clock2_now: "now clock2 = 1770206400000"
  by (simp add: clock2_def)

lemma clock2_keys:
  "getDateKeys clock2 = \<lparr>date_key = ''2026-02-04'', weekStart_key = ''2026-02-02'',
                          monthStart_key = ''2026-02-01''\<rparr>"
  by (simp add: clock_defs clock2_def) (simp add: string_defs)

lemma toISODate_examples:
  "toISODate 0 = ''1970-01-01''" "toISODate (- 86400000) = ''1969-12-31''"
  "toISODate 951782400000 = ''2000-02-29''" "toISODate 1709251199999 = ''2024-02-29''"
  "toISODate 1735689600000 = ''2025-01-01''"
  by (simp_all add: string_defs)

lemma list_ex_listed:
  "list_ex (\<lambda>addr. toLowerCase addr = toLowerCase r) xs = listed (Some xs) r"
  by (simp add: listed_def same_address_def list_ex_iff)

lemma trailing_hour_count:
  "int (length (filter (\<lambda>t. timestamp t > n - 60 * 60 * 1000) (recentTransactions s)))
     = inTrailingHour s n"
proof -
  have "\<And>x::SpendingRecord. (n - 3600000 < timestamp x) = (n - timestamp x < 3600000)"
    by arith
  then show ?thesis by (simp add: inTrailingHour_def)
qed

lemma first_failure_if:
  "first_failure ((if c then Some x else None) # cs) = (if c then Some x else first_failure cs)"
  by simp

lemma first_failure_case:
  "first_failure ((case ol of None \<Rightarrow> None
                   | Some w \<Rightarrow> if P w then Some (f w) else None) # cs)
     = (if ol \<noteq> None \<and> P (the ol) then Some (f (the ol)) else first_failure cs)"
  by (cases ol) simp_all

lemma spec_chain:
  "checkPayment_spec e clk a r =
    (if a > maxPerTransaction (policy e)
     then deny (ExceedsPerTransaction a (maxPerTransaction (policy e)))
     else if dailySpent (state e) + a > dailyLimit (policy e)
     then deny (ExceedsDailyLimit (dailySpent (state e)) (dailyLimit (policy e)))
     else if weeklyLimit (policy e) \<noteq> None
             \<and> weeklySpent (state e) + a > the (weeklyLimit (policy e))
     then deny (ExceedsWeeklyLimit (weeklySpent (state e)) (the (weeklyLimit (policy e))))
     else if monthlyLimit (policy e) \<noteq> None
             \<and> monthlySpent (state e) + a > the (monthlyLimit (policy e))
     then deny (ExceedsMonthlyLimit (monthlySpent (state e)) (the (monthlyLimit (policy e))))
     else if maxTransactionsPerHour (policy e) \<noteq> None
             \<and> inTrailingHour (state e) (now clk) \<ge> the (maxTransactionsPerHour (policy e))
     then deny (VelocityLimitExceeded (inTrailingHour (state e) (now clk))
                  (the (maxTransactionsPerHour (policy e))))
     else if perRecipientDailyLimit (policy e) \<noteq> None
             \<and> spentOn (state e) r + a > the (perRecipientDailyLimit (policy e))
     then deny (PerRecipientLimitExceeded r (Number (spentOn (state e) r))
                  (the (perRecipientDailyLimit (policy e))))
     else if listed (blockedRecipients (policy e)) r
     then deny (RecipientBlocked r)
     else if approvedRecipients (policy e) \<noteq> None
             \<and> (the (approvedRecipients (policy e)) \<noteq> []
                \<and> \<not> listed (Some (the (approvedRecipients (policy e)))) r)
     then deny (NotInWhitelist r)
     else allow)"
  unfolding checkPayment_spec_def evaluation_order_def list.map failure.simps
    first_failure_if first_failure_case first_failure.simps
  by (simp only: if_distrib [of "case_option allow deny"] option.case cong: if_cong)


lemma blocked_cond:
  "(case bl of None \<Rightarrow> False
    | Some xs \<Rightarrow> length xs > 0 \<and> list_ex (\<lambda>addr. toLowerCase addr = toLowerCase r) xs)
     = listed bl r"
  by (cases bl) (auto simp: listed_def same_address_def list_ex_iff)

lemma approved_cond:
  "(case al of None \<Rightarrow> False
    | Some xs \<Rightarrow> length xs > 0 \<and> \<not> list_ex (\<lambda>addr. toLowerCase addr = toLowerCase r) xs)
     = (al \<noteq> None \<and> (the al \<noteq> [] \<and> \<not> listed (Some (the al)) r))"
  by (cases al) (auto simp: listed_def same_address_def list_ex_iff)

lemma recipientSpent_numeric:
  assumes "numericEntry s r"
  shows "orZero (getProp (perRecipient s) (toLowerCase r)) = Number (spentOn s r)"
proof (cases "perRecipient s (toLowerCase r)")
  case None
  with assms have "objectPrototype (toLowerCase r) = None"
    by (simp add: numericEntry_def inheritedKey_def)
  with None show ?thesis by (simp add: getProp_def orZero_def spentOn_def)
next
  case (Some v)
  with assms obtain x where "v = Number x"
    by (cases v) (simp_all add: numericEntry_def)
  with Some show ?thesis by (simp add: getProp_def orZero_def spentOn_def)
qed

lemma checkPayment_refines_spec:
  assumes "numericEntry (state e) r"
  shows "checkPayment e clk a r = checkPayment_spec e clk a r"
  unfolding spec_chain checkPayment_def Let_def blocked_cond approved_cond
    trailing_hour_count recipientSpent_numeric [OF assms] jsPlus.simps jsGreater.simps
  by (rule refl)

text \<open>
  For a recipient whose entry in the ledger is numeric, \<^verbatim>\<open>checkPayment\<close> is the first
  failing check in the order per-transaction cap, daily, weekly and monthly limit,
  velocity limit, per-recipient daily limit, blacklist, whitelist: it allows exactly
  when no check fails, and its reason is that of the first check that fails.
\<close>

lemma checkPayment_first_failing_check_numeric:
  assumes "numericEntry (state e) r"
  shows "allowed (checkPayment e clk a r)
           = (first_failure (map (failure e clk a r) evaluation_order) = None)"
    and "reason (checkPayment e clk a r)
           = first_failure (map (failure e clk a r) evaluation_order)"
  unfolding checkPayment_refines_spec [OF assms] checkPayment_spec_def
  by (simp_all add: deny_def allow_def split: option.splits)

text \<open>
  For every recipient, the blacklist is read before the whitelist: a recipient on the
  blacklist is never allowed and never gets the whitelist reason.
\<close>

lemma blacklist_before_whitelist:
  assumes "listed (blockedRecipients (policy e)) r"
  shows "allowed (checkPayment e clk a r) = False"
    and "reason (checkPayment e clk a r) \<noteq> Some (NotInWhitelist r)"
    and "reason (checkPayment e clk a r) \<noteq> None"
  using assms
  by (simp_all add: checkPayment_def Let_def blocked_cond approved_cond deny_def allow_def)

lemma blocked_reason:
  assumes "numericEntry (state e) r"
    and "listed (blockedRecipients (policy e)) r"
    and "\<forall>c \<in> set (take 6 evaluation_order). failure e clk a r c = None"
  shows "reason (checkPayment e clk a r) = Some (RecipientBlocked r)"
proof -
  have "failure e clk a r PerTransactionCap = None" "failure e clk a r DailyLimit = None"
    "failure e clk a r WeeklyLimit = None" "failure e clk a r MonthlyLimit = None"
    "failure e clk a r VelocityLimit = None" "failure e clk a r PerRecipientDailyLimit = None"
    using assms(3) by (simp_all add: evaluation_order_def)
  moreover have "failure e clk a r Blacklist = Some (RecipientBlocked r)"
    using assms(2) by simp
  ultimately show ?thesis
    unfolding checkPayment_first_failing_check_numeric(2) [OF assms(1)]
    by (simp add: evaluation_order_def del: failure.simps)
qed

lemma fresh4_state:
  "state fresh4 = defaultState keys1" "policy fresh4 = policy4"
  by (simp_all add: fresh4_def new_PolicyEnforcer_def clock1_keys)

text \<open>
  \<^bold>\<open>C1.\<close> With a per-recipient daily limit of 20 and a fresh ledger, the first failing
  check for the amount 30 is the per-recipient one, for every recipient. For the
  recipients \<^verbatim>\<open>constructor\<close> and \<^verbatim>\<open>__proto__\<close> \<^verbatim>\<open>checkPayment\<close> allows the payment, with no
  reason: \<^verbatim>\<open>perRecipient[key] || 0\<close> is then a member inherited from
  \<^verbatim>\<open>Object.prototype\<close>, the projected total a string, and the comparison false. For the
  recipient \<^verbatim>\<open>0xR\<close> it denies with the per-recipient reason.
\<close>
theorem per_recipient_check_misses_inherited_keys:
  "first_failure (map (failure fresh4 clock1 30 ''constructor'') evaluation_order)
     = Some (PerRecipientLimitExceeded ''constructor'' (Number 0) 20)
   \<and> allowed (checkPayment fresh4 clock1 30 ''constructor'') = True
   \<and> reason (checkPayment fresh4 clock1 30 ''constructor'') = None
   \<and> first_failure (map (failure fresh4 clock1 30 ''__proto__'') evaluation_order)
     = Some (PerRecipientLimitExceeded ''__proto__'' (Number 0) 20)
   \<and> allowed (checkPayment fresh4 clock1 30 ''__proto__'') = True
   \<and> reason (checkPayment fresh4 clock1 30 ''__proto__'') = None
   \<and> allowed (checkPayment fresh4 clock1 30 ''0xR'') = False
   \<and> reason (checkPayment fresh4 clock1 30 ''0xR'')
     = Some (PerRecipientLimitExceeded ''0xR'' (Number 0) 20)"
  by (simp add: fresh4_state policy4_def defaultState_def keys1_def clock1_now
      evaluation_order_def spentOn_def listed_def inTrailingHour_def
      checkPayment_def Let_def toLowerCase_def getProp_def objectPrototype_def orZero_def
      deny_def allow_def)

text \<open>
  The same slip in \<^verbatim>\<open>recordPayment\<close>: for \<^verbatim>\<open>constructor\<close> the ledger receives a string,
  for \<^verbatim>\<open>__proto__\<close> nothing, and after two payments of 30 a third is still allowed.
\<close>

lemma recordPayment_inherited_keys:
  "perRecipient (state (recordPayment fresh4 clock1 30 ''constructor'')) ''constructor''
     = Some (Text (FunctionSource ''constructor'') [30])"
  "perRecipient (state (recordPayment (recordPayment fresh4 clock1 30 ''constructor'')
       clock1 30 ''constructor'')) ''constructor''
     = Some (Text (FunctionSource ''constructor'') [30, 30])"
  "perRecipient (state (recordPayment fresh4 clock1 30 ''__proto__'')) = Map.empty"
  "allowed (checkPayment (recordPayment (recordPayment fresh4 clock1 30 ''constructor'')
       clock1 30 ''constructor'') clock1 30 ''constructor'')"
  by (simp_all add: fresh4_state policy4_def defaultState_def keys1_def clock1_now clock1_keys
      recordPayment_def saveState_def resetIfNewPeriod_def checkPayment_def Let_def
      toLowerCase_def getProp_def setProp_def objectPrototype_def orZero_def
      deny_def allow_def)

text \<open>A recipient on both lists, with none of the six limit checks failing.\<close>

lemma blocked_reason_example:
  "reason (checkPayment fresh1 clock1 (1/2) ''0xboth'') = Some (RecipientBlocked ''0xboth'')
   \<and> allowed (checkPayment fresh1 clock1 (1/2) ''0xboth'') = False"
proof -
  note defs = fresh1_def new_PolicyEnforcer_def policy1_def clock1_keys clock1_now keys1_def
      defaultState_def listed_def same_address_def toLowerCase_def evaluation_order_def
      inTrailingHour_def spentOn_def numericEntry_def inheritedKey_def objectPrototype_def
  have h0: "numericEntry (state fresh1) ''0xboth''" by (simp add: defs)
  have h1: "listed (blockedRecipients (policy fresh1)) ''0xboth''" by (simp add: defs)
  have h3: "\<forall>c \<in> set (take 6 evaluation_order). failure fresh1 clock1 (1/2) ''0xboth'' c = None"
    by (simp add: defs)
  from blocked_reason [OF h0 h1 h3] blacklist_before_whitelist(1) [OF h1]
  show ?thesis by simp
qed


subsection \<open>Field lemmas\<close>

lemma reset_date [simp]: "date (resetIfNewPeriod k s) = date_key k"
  and reset_weekStart [simp]: "weekStart (resetIfNewPeriod k s) = weekStart_key k"
  and reset_monthStart [simp]: "monthStart (resetIfNewPeriod k s) = monthStart_key k"
  by (simp_all add: resetIfNewPeriod_def Let_def)

lemma reset_dailySpent:
  "dailySpent (resetIfNewPeriod k s) = (if date s \<noteq> date_key k then 0 else dailySpent s)"
  by (simp add: resetIfNewPeriod_def Let_def)

lemma reset_weeklySpent:
  "weeklySpent (resetIfNewPeriod k s)
     = (if weekStart s \<noteq> weekStart_key k then 0 else weeklySpent s)"
  by (simp add: resetIfNewPeriod_def Let_def)

lemma reset_monthlySpent:
  "monthlySpent (resetIfNewPeriod k s)
     = (if monthStart s \<noteq> monthStart_key k then 0 else monthlySpent s)"
  by (simp add: resetIfNewPeriod_def Let_def)

lemma reset_transactions:
  "transactions (resetIfNewPeriod k s) = (if date s \<noteq> date_key k then 0 else transactions s)"
  by (simp add: resetIfNewPeriod_def Let_def)


lemma reset_recentTransactions [simp]:
  "recentTransactions (resetIfNewPeriod k s) = recentTransactions s"
  by (simp add: resetIfNewPeriod_def Let_def)

lemma recordPayment_policy [simp]: "policy (recordPayment e clk a r) = policy e"
  by (simp add: recordPayment_def saveState_def Let_def)


lemma recordPayment_dailySpent:
  "dailySpent (state (recordPayment e clk a r))
     = dailySpent (resetIfNewPeriod (getDateKeys clk) (state e)) + a"
  by (simp add: recordPayment_def saveState_def Let_def)

lemma recordPayment_weeklySpent:
  "weeklySpent (state (recordPayment e clk a r))
     = weeklySpent (resetIfNewPeriod (getDateKeys clk) (state e)) + a"
  by (simp add: recordPayment_def saveState_def Let_def)

lemma recordPayment_monthlySpent:
  "monthlySpent (state (recordPayment e clk a r))
     = monthlySpent (resetIfNewPeriod (getDateKeys clk) (state e)) + a"
  by (simp add: recordPayment_def saveState_def Let_def)



lemma recordPayment_keys [simp]:
  "date (state (recordPayment e clk a r)) = date_key (getDateKeys clk)"
  "weekStart (state (recordPayment e clk a r)) = weekStart_key (getDateKeys clk)"
  "monthStart (state (recordPayment e clk a r)) = monthStart_key (getDateKeys clk)"
  by (simp_all add: recordPayment_def saveState_def Let_def)

lemma freeze_fields [simp]:
  "maxPerTransaction (policy (freeze e)) = 0"
  "dailyLimit (policy (freeze e)) = 0"
  "state (freeze e) = state e"
  "spendingFile (freeze e) = Stored (state e)"
  by (simp_all add: freeze_def saveState_def)



subsection \<open>C2\<close>

text \<open>
  \<^bold>\<open>C2.\<close> \<^verbatim>\<open>recordPayment\<close> and \<^verbatim>\<open>loadState\<close> reset a bucket whose stored key differs
  from the current one; \<^verbatim>\<open>checkPayment\<close> never calls \<^verbatim>\<open>getDateKeys()\<close>. On an instance
  whose ledger is of 2026-02-02 with the daily limit of 10 spent, a check of 1 on
  2026-02-03 is denied for the daily limit with the total of the day before, while a
  record at the same clock restarts the daily total, and a newly constructed instance
  over the same file allows the payment.
\<close>
theorem checkPayment_uses_stale_bucket:
  "date (state stale) \<noteq> date_key (getDateKeys clock1)
   \<and> checkPayment stale clock1 1 ''0xR'' = deny (ExceedsDailyLimit 10 10)
   \<and> dailySpent (state (recordPayment stale clock1 1 ''0xR'')) = 1
   \<and> checkPayment (new_PolicyEnforcer policy2 (spendingFile stale) clock1) clock1 1 ''0xR''
       = allow"
  by (simp add: stale_def yesterday_state_def policy2_def clock1_keys clock1_now keys1_def
      checkPayment_def recordPayment_def saveState_def resetIfNewPeriod_def
      new_PolicyEnforcer_def Let_def toLowerCase_def)

text \<open>
  The keys themselves: \<^verbatim>\<open>getDateKeys\<close> takes the day from \<^verbatim>\<open>toISOString\<close> (UTC) and
  the week and the month from the local-time getters. Two hours ahead of UTC, at 12:00
  and at 23:30 UTC of Saturday 2026-01-31, the day key is the same and the week and
  month keys differ (the second week key is a Sunday), so a record at 23:30 UTC restarts
  the weekly and monthly totals within one UTC week and month.
\<close>

lemma getDateKeys_local_time:
  "getDateKeys clock_noon_plus2
     = \<lparr>date_key = ''2026-01-31'', weekStart_key = ''2026-01-26'',
        monthStart_key = ''2026-01-01''\<rparr>"
  "getDateKeys clock_night_plus2
     = \<lparr>date_key = ''2026-01-31'', weekStart_key = ''2026-01-25'',
        monthStart_key = ''2026-02-01''\<rparr>"
  by (simp_all add: clock_defs clock_noon_plus2_def clock_night_plus2_def)
     (simp_all add: string_defs)

lemma recordPayment_local_time_rollover:
  "dailySpent (state (recordPayment
      (recordPayment (new_PolicyEnforcer policy2 Missing clock_noon_plus2)
         clock_noon_plus2 5 ''0xR'') clock_night_plus2 1 ''0xR'')) = 6
   \<and> weeklySpent (state (recordPayment
      (recordPayment (new_PolicyEnforcer policy2 Missing clock_noon_plus2)
         clock_noon_plus2 5 ''0xR'') clock_night_plus2 1 ''0xR'')) = 1
   \<and> monthlySpent (state (recordPayment
      (recordPayment (new_PolicyEnforcer policy2 Missing clock_noon_plus2)
         clock_noon_plus2 5 ''0xR'') clock_night_plus2 1 ''0xR'')) = 1"
  by (simp add: recordPayment_dailySpent recordPayment_weeklySpent recordPayment_monthlySpent
      reset_dailySpent reset_weeklySpent reset_monthlySpent getDateKeys_local_time
      new_PolicyEnforcer_def defaultState_def)

subsection \<open>C3\<close>

lemma call_keeps_frozen:
  "maxPerTransaction (policy e) = 0 \<Longrightarrow> maxPerTransaction (policy (snd (call clk c e))) = 0"
  by (cases c) (simp_all add: freeze_def saveState_def)

lemma calls_keep_frozen:
  "maxPerTransaction (policy e) = 0 \<Longrightarrow> maxPerTransaction (policy (calls e cs)) = 0"
proof (induction cs arbitrary: e)
  case Nil
  then show ?case by simp
next
  case (Cons x cs)
  obtain clk c where x: "x = (clk, c)" by (cases x)
  from Cons.prems have "maxPerTransaction (policy (snd (call clk c e))) = 0"
    by (rule call_keeps_frozen)
  then show ?case using Cons.IH x by simp
qed

lemma zero_cap_denies_positive:
  "maxPerTransaction (policy e) = 0 \<Longrightarrow> 0 < a \<Longrightarrow> \<not> allowed (checkPayment e clk a r)"
  by (simp add: checkPayment_def Let_def deny_def)

text \<open>
  What holds of \<^verbatim>\<open>freeze()\<close>: the two limits of the instance's policy are zero, the
  ledger is saved as it is, and after any further calls on the instance every
  \<^verbatim>\<open>checkPayment\<close> with a positive amount is denied.
\<close>

lemma freeze_denies_positive_amounts:
  "maxPerTransaction (policy (freeze e)) = 0 \<and> dailyLimit (policy (freeze e)) = 0
   \<and> state (freeze e) = state e \<and> spendingFile (freeze e) = Stored (state e)
   \<and> (0 < a \<longrightarrow> \<not> allowed (checkPayment (calls (freeze e) cs) clk a r))"
  using zero_cap_denies_positive [of "calls (freeze e) cs" a clk r]
    calls_keep_frozen [of "freeze e" cs]
  by simp

text \<open>
  \<^verbatim>\<open>freeze()\<close> writes to the policy object: every instance of the process that holds
  the same object is frozen with it, and an instance on another object is not.
\<close>

lemma self_construct: "self h (construct r fl clk) = new_PolicyEnforcer (h r) fl clk"
  by (simp add: self_def construct_def new_PolicyEnforcer_def)

lemma invoke_Freeze:
  "invoke h i clk Freeze
     = (Frozen, h(policyRef i := (h (policyRef i))\<lparr>maxPerTransaction := 0, dailyLimit := 0\<rparr>),
        i\<lparr>ledgerFile := Stored (ledger i)\<rparr>)"
  by (simp add: invoke_def self_def freeze_def saveState_def)

lemma freeze_is_shared:
  assumes "invoke h i clk Freeze = (out, h', i')"
  shows "policyRef j = policyRef i
           \<Longrightarrow> maxPerTransaction (policy (self h' j)) = 0 \<and> dailyLimit (policy (self h' j)) = 0"
    and "policyRef j = policyRef i \<Longrightarrow> 0 < a \<Longrightarrow> \<not> allowed (checkPayment (self h' j) clk' a r)"
    and "policyRef j \<noteq> policyRef i \<Longrightarrow> self h' j = self h j"
proof -
  from assms have h': "h' = h(policyRef i := (h (policyRef i))\<lparr>maxPerTransaction := 0, dailyLimit := 0\<rparr>)"
    by (simp add: invoke_Freeze)
  show z: "policyRef j = policyRef i
           \<Longrightarrow> maxPerTransaction (policy (self h' j)) = 0 \<and> dailyLimit (policy (self h' j)) = 0"
    by (simp add: h' self_def)
  show "policyRef j = policyRef i \<Longrightarrow> 0 < a \<Longrightarrow> \<not> allowed (checkPayment (self h' j) clk' a r)"
    using z by (intro zero_cap_denies_positive) simp_all
  show "policyRef j \<noteq> policyRef i \<Longrightarrow> self h' j = self h j"
    by (simp add: h' self_def)
qed

text \<open>
  \<^bold>\<open>C3.\<close> An instance on the policy object at address 0 is frozen. On that instance a
  payment of amount 0 is still allowed, with no reason (no comparison \<open>0 > 0\<close> holds),
  and so is one of amount -5.
  The file \<^verbatim>\<open>freeze()\<close> writes is the ledger, which holds no limit: an instance
  constructed over that file in the same process, on the same policy object, denies
  0.01, while one constructed over it in a process whose policy object holds the
  configured policy again allows 0.01.
\<close>
theorem freeze_allows_zero_and_saves_no_limit:
  "self heap1 handle1 = fresh1
   \<and> self (fst (snd frozenProcess)) (snd (snd frozenProcess)) = freeze fresh1
   \<and> allowed (checkPayment (freeze fresh1) clock1 0 ''0xApproved1'') = True
   \<and> reason (checkPayment (freeze fresh1) clock1 0 ''0xApproved1'') = None
   \<and> allowed (checkPayment (freeze fresh1) clock1 (- 5) ''0xApproved1'') = True
   \<and> spendingFile (freeze fresh1) = Stored (state fresh1)
   \<and> allowed (checkPayment
        (self (fst (snd frozenProcess))
           (construct 0 (ledgerFile (snd (snd frozenProcess))) clock2))
        clock2 (1/100) ''0xApproved1'') = False
   \<and> reason (checkPayment
        (self (fst (snd frozenProcess))
           (construct 0 (ledgerFile (snd (snd frozenProcess))) clock2))
        clock2 (1/100) ''0xApproved1'') = Some (ExceedsPerTransaction (1/100) 0)
   \<and> allowed (checkPayment
        (self heap1 (construct 0 (ledgerFile (snd (snd frozenProcess))) clock2))
        clock2 (1/100) ''0xApproved1'') = True"
  by (simp add: frozenProcess_def invoke_Freeze heap1_def handle1_def construct_def self_def
      fresh1_def policy1_def clock1_keys clock1_now clock2_keys clock2_now keys1_def
      checkPayment_def freeze_def saveState_def new_PolicyEnforcer_def defaultState_def
      resetIfNewPeriod_def Let_def toLowerCase_def getProp_def objectPrototype_def orZero_def
      allow_def deny_def)

subsection \<open>C4\<close>









subsection \<open>C5\<close>

text \<open>
  \<^bold>\<open>C5.\<close> A call of \<^verbatim>\<open>checkPayment\<close> or \<^verbatim>\<open>getStatus\<close> leaves the instance, its ledger
  and the saved file as they were; \<^verbatim>\<open>getStatus\<close> twice at the same clock reading, or
  after a \<^verbatim>\<open>checkPayment\<close>, gives the same result.
\<close>
theorem read_only_calls_change_nothing:
  "snd (call clk (CheckPayment a r) e) = e
   \<and> snd (call clk GetStatus e) = e
   \<and> state (snd (call clk (CheckPayment a r) e)) = state e
   \<and> spendingFile (snd (call clk (CheckPayment a r) e)) = spendingFile e
   \<and> fst (call clk GetStatus (snd (call clk GetStatus e))) = fst (call clk GetStatus e)
   \<and> fst (call clk GetStatus (snd (call clk' (CheckPayment a r) e)))
       = fst (call clk GetStatus e)"
  by simp

theorem read_only_calls_change_nothing_witness:
  "snd (call clock1 (CheckPayment 1 ''0xR'') stale) = stale
   \<and> snd (call clock1 GetStatus stale) = stale
   \<and> fst (call clock1 GetStatus (snd (call clock1 GetStatus stale)))
       = fst (call clock1 GetStatus stale)"
  using read_only_calls_change_nothing [of clock1 1 "''0xR''" stale clock1]
  by simp

subsection \<open>The status report\<close>

text \<open>
  \<^verbatim>\<open>getStatus()\<close> reports the stored daily total and \<^verbatim>\<open>Math.max(0, limit - spent)\<close>;
  no \<^verbatim>\<open>remaining\<close> field is negative. By how much a recorded amount moves these
  figures is a question of the rounding of \<^verbatim>\<open>+=\<close> and \<^verbatim>\<open>-\<close> on doubles, which this
  development does not model.
\<close>

lemma getStatus_daily:
  "spent (daily (getStatus e clk)) = dailySpent (state e)"
  "remaining (daily (getStatus e clk)) = max 0 (dailyLimit (policy e) - dailySpent (state e))"
  by (simp_all add: getStatus_def Let_def)

lemma remaining_nonneg:
  "0 \<le> remaining (daily (getStatus e clk))"
  "weekly (getStatus e clk) = Some w \<Longrightarrow> 0 \<le> remaining w"
  "monthly (getStatus e clk) = Some m \<Longrightarrow> 0 \<le> remaining m"
  "velocity (getStatus e clk) = Some v \<Longrightarrow> 0 \<le> remaining_v v"
  by (auto simp: getStatus_def Let_def split: option.splits)

subsection \<open>C7\<close>

























subsection \<open>C8\<close>






subsection \<open>C9\<close>

lemma findIndex_Some:
  "findIndex P xs = Some i \<Longrightarrow> i < length xs \<and> P (xs ! i) \<and> (\<forall>j<i. \<not> P (xs ! j))"
proof (induction xs arbitrary: i)
  case Nil
  then show ?case by simp
next
  case (Cons x xs)
  show ?case
  proof (cases "P x")
    case True
    with Cons.prems show ?thesis by simp
  next
    case False
    with Cons.prems obtain k where k: "findIndex P xs = Some k" "i = Suc k"
      by auto
    from Cons.IH [OF k(1)] False k(2) show ?thesis
      by (auto simp: nth_Cons split: nat.splits)
  qed
qed

lemma status_spread: "status (spread r u) = newStatus r u"
  by (simp add: spread_def newStatus_def)

lemma createReceipt_facts:
  "status (fst (createReceipt st uuid isoNow partial)) = Pending"
  "receipts (snd (createReceipt st uuid isoNow partial))
     = receipts st @ [fst (createReceipt st uuid isoNow partial)]"
  by (simp_all add: createReceipt_def saveReceipts_def Let_def)

lemma recordBlocked_facts:
  "status (fst (recordBlocked st uuid isoNow u a ar rc nw rs)) = Blocked"
  "receipts (snd (recordBlocked st uuid isoNow u a ar rc nw rs))
     = receipts st @ [fst (recordBlocked st uuid isoNow u a ar rc nw rs)]"
  by (simp_all add: recordBlocked_def saveReceipts_def Let_def)

lemma updateReceipt_unknown:
  "findIndex (\<lambda>r. id_r r = ident) (receipts st) = None
   \<Longrightarrow> updateReceipt st ident upd = (None, st)"
  by (simp add: updateReceipt_def)

lemma updateReceipt_found:
  assumes "findIndex (\<lambda>r. id_r r = ident) (receipts st) = Some idx"
  shows "fst (updateReceipt st ident upd) = Some (spread (receipts st ! idx) upd)"
    and "receipts (snd (updateReceipt st ident upd))
           = (receipts st)[idx := spread (receipts st ! idx) upd]"
    and "statuses (snd (updateReceipt st ident upd))
           = (statuses st)[idx := newStatus (receipts st ! idx) upd]"
proof -
  from findIndex_Some [OF assms] have lt: "idx < length (receipts st)" by simp
  show "receipts (snd (updateReceipt st ident upd))
           = (receipts st)[idx := spread (receipts st ! idx) upd]"
    using assms by (simp add: updateReceipt_def saveReceipts_def Let_def)
  then show "statuses (snd (updateReceipt st ident upd))
           = (statuses st)[idx := newStatus (receipts st ! idx) upd]"
    by (simp add: statuses_def map_update status_spread)
  show "fst (updateReceipt st ident upd) = Some (spread (receipts st ! idx) upd)"
    using assms lt by (simp add: updateReceipt_def saveReceipts_def Let_def)
qed

lemma updateReceipt_without_status:
  assumes "status_u upd = None"
  shows "statuses (snd (updateReceipt st ident upd)) = statuses st"
proof (cases "findIndex (\<lambda>r. id_r r = ident) (receipts st)")
  case None
  then show ?thesis by (simp add: updateReceipt_unknown)
next
  case (Some idx)
  from findIndex_Some [OF Some] have lt: "idx < length (receipts st)" by simp
  have "newStatus (receipts st ! idx) upd = statuses st ! idx"
    using assms lt by (simp add: newStatus_def statuses_def)
  then show ?thesis
    using updateReceipt_found(3) [OF Some, of upd] by simp
qed

lemma updates_without_status:
  "list_all (\<lambda>(i, u). status_u u = None) us \<Longrightarrow> statuses (updates st us) = statuses st"
proof (induction us arbitrary: st)
  case Nil
  then show ?case by simp
next
  case (Cons x us)
  obtain i u where x: "x = (i, u)" by (cases x)
  with Cons.prems have "status_u u = None" "list_all (\<lambda>(i, u). status_u u = None) us"
    by simp_all
  then show ?case
    using Cons.IH [of "snd (updateReceipt st i u)"] x
    by (simp add: updateReceipt_without_status)
qed

text \<open>
  \<^bold>\<open>C9\<close> (as amended). \<^verbatim>\<open>createReceipt\<close> appends a receipt of status \<^verbatim>\<open>pending\<close> and
  \<^verbatim>\<open>recordBlocked\<close> one of status \<^verbatim>\<open>blocked\<close>. \<^verbatim>\<open>updateReceipt(id, update)\<close> returns
  \<^verbatim>\<open>null\<close> and changes nothing when no stored receipt has the id; otherwise it merges
  the update into the first stored receipt with that id, whatever its current status:
  the status of that receipt becomes the status of the update when the update has one
  and stays as it is otherwise, and no other receipt changes. Updates that carry no
  status leave every status as it is.
\<close>
theorem receipt_status_transitions:
  "status (fst (createReceipt st uuid isoNow partial)) = Pending
   \<and> receipts (snd (createReceipt st uuid isoNow partial))
       = receipts st @ [fst (createReceipt st uuid isoNow partial)]
   \<and> status (fst (recordBlocked st uuid isoNow u a ar rc nw rs)) = Blocked
   \<and> receipts (snd (recordBlocked st uuid isoNow u a ar rc nw rs))
       = receipts st @ [fst (recordBlocked st uuid isoNow u a ar rc nw rs)]
   \<and> (findIndex (\<lambda>r. id_r r = ident) (receipts st) = None
        \<longrightarrow> updateReceipt st ident upd = (None, st))
   \<and> (\<forall>idx. findIndex (\<lambda>r. id_r r = ident) (receipts st) = Some idx
        \<longrightarrow> idx < length (receipts st) \<and> id_r (receipts st ! idx) = ident
          \<and> (\<forall>j<idx. id_r (receipts st ! j) \<noteq> ident)
          \<and> fst (updateReceipt st ident upd) = Some (spread (receipts st ! idx) upd)
          \<and> receipts (snd (updateReceipt st ident upd))
              = (receipts st)[idx := spread (receipts st ! idx) upd]
          \<and> statuses (snd (updateReceipt st ident upd))
              = (statuses st)[idx := newStatus (receipts st ! idx) upd])
   \<and> (status_u upd = None \<longrightarrow> statuses (snd (updateReceipt st ident upd)) = statuses st)
   \<and> (list_all (\<lambda>(i, u). status_u u = None) us \<longrightarrow> statuses (updates st us) = statuses st)"
proof -
  have found: "idx < length (receipts st) \<and> id_r (receipts st ! idx) = ident
          \<and> (\<forall>j<idx. id_r (receipts st ! j) \<noteq> ident)
          \<and> fst (updateReceipt st ident upd) = Some (spread (receipts st ! idx) upd)
          \<and> receipts (snd (updateReceipt st ident upd))
              = (receipts st)[idx := spread (receipts st ! idx) upd]
          \<and> statuses (snd (updateReceipt st ident upd))
              = (statuses st)[idx := newStatus (receipts st ! idx) upd]"
    if "findIndex (\<lambda>r. id_r r = ident) (receipts st) = Some idx" for idx
    using findIndex_Some [OF that] updateReceipt_found [OF that, of upd] by simp
  show ?thesis
    using found createReceipt_facts [of st uuid isoNow partial]
      recordBlocked_facts [of st uuid isoNow u a ar rc nw rs]
      updateReceipt_unknown [of ident st upd] updateReceipt_without_status [of upd st ident]
      updates_without_status [of us st]
    by blast
qed

lemma pendingStore_receipts:
  "receipts pendingStore =
     [\<lparr>id_r = ''id-1'', timestamp_r = ''2026-02-03T10:00:00.000Z'',
       url = ''https://api.example.com/data'', amount_r = ''0.50'', amountRaw = ''500000'',
       currency = ''USDC'', network = base, recipient_r = ''0x1234'', txHash = None,
       status = Pending, blockReason = None, facilitatorResponse = None\<rparr>]"
  by (simp add: pendingStore_def store0_def new_ReceiptStore_def createReceipt_def
      saveReceipts_def fields1_def Let_def)

theorem receipt_status_transitions_witness:
  "findIndex (\<lambda>r. id_r r = ''id-1'') (receipts pendingStore) = Some 0
   \<and> statuses pendingStore = [Pending]
   \<and> statuses (snd (updateReceipt pendingStore ''id-1'' (statusUpdate Success))) = [Success]
   \<and> findIndex (\<lambda>r. id_r r = ''id-9'') (receipts pendingStore) = None
   \<and> updateReceipt pendingStore ''id-9'' (statusUpdate Success) = (None, pendingStore)
   \<and> status_u (txHashUpdate ''0xabc123'') = None
   \<and> statuses (snd (updateReceipt pendingStore ''id-1'' (txHashUpdate ''0xabc123'')))
       = [Pending]
   \<and> list_all (\<lambda>(i, u). status_u u = None)
        [(''id-1'', txHashUpdate ''0xabc123''), (''id-9'', noUpdate)]
   \<and> statuses (updates pendingStore
        [(''id-1'', txHashUpdate ''0xabc123''), (''id-9'', noUpdate)]) = [Pending]"
proof -
  have f: "findIndex (\<lambda>r. id_r r = ''id-1'') (receipts pendingStore) = Some 0"
    by (simp add: pendingStore_receipts)
  have n: "findIndex (\<lambda>r. id_r r = ''id-9'') (receipts pendingStore) = None"
    by (simp add: pendingStore_receipts)
  have s: "statuses pendingStore = [Pending]"
    by (simp add: statuses_def pendingStore_receipts)
  have ns: "newStatus (receipts pendingStore ! 0) (statusUpdate Success) = Success"
    by (simp add: newStatus_def statusUpdate_def)
  from receipt_status_transitions [of pendingStore _ _ _ _ _ _ _ _ _ "''id-1''"
      "statusUpdate Success"] f
  have "statuses (snd (updateReceipt pendingStore ''id-1'' (statusUpdate Success)))
          = (statuses pendingStore)[0 := newStatus (receipts pendingStore ! 0) (statusUpdate Success)]"
    by blast
  moreover from receipt_status_transitions [of pendingStore _ _ _ _ _ _ _ _ _ "''id-9''"
      "statusUpdate Success"] n
  have "updateReceipt pendingStore ''id-9'' (statusUpdate Success) = (None, pendingStore)"
    by blast
  moreover have t: "status_u (txHashUpdate ''0xabc123'') = None"
    by (simp add: txHashUpdate_def noUpdate_def)
  moreover have l: "list_all (\<lambda>(i, u). status_u u = None)
        [(''id-1'', txHashUpdate ''0xabc123''), (''id-9'', noUpdate)]"
    by (simp add: txHashUpdate_def noUpdate_def)
  moreover from receipt_status_transitions [of pendingStore _ _ _ _ _ _ _ _ _ "''id-1''"
      "txHashUpdate ''0xabc123''"
      "[(''id-1'', txHashUpdate ''0xabc123''), (''id-9'', noUpdate)]"] t l
  have "statuses (snd (updateReceipt pendingStore ''id-1'' (txHashUpdate ''0xabc123'')))
          = statuses pendingStore"
    and "statuses (updates pendingStore
          [(''id-1'', txHashUpdate ''0xabc123''), (''id-9'', noUpdate)]) = statuses pendingStore"
    by blast+
  ultimately show ?thesis using f n s ns by simp
qed

text \<open>
  \<^bold>\<open>C9\<close> as stated fails: \<^verbatim>\<open>updateReceipt\<close> does not look at the current status; a
  \<^verbatim>\<open>blocked\<close> receipt becomes \<^verbatim>\<open>success\<close>, and then \<^verbatim>\<open>pending\<close> again.
\<close>
theorem blocked_receipt_becomes_success:
  "statuses blockedStore = [Blocked]
   \<and> statuses (snd (updateReceipt blockedStore ''id-2'' (statusUpdate Success))) = [Success]
   \<and> statuses (updates blockedStore [(''id-2'', statusUpdate Success),
                                      (''id-2'', statusUpdate Pending)]) = [Pending]"
  by (simp add: blockedStore_def store0_def new_ReceiptStore_def recordBlocked_def
      updateReceipt_def saveReceipts_def statuses_def statusUpdate_def noUpdate_def
      spread_def Let_def)


subsection \<open>C10\<close>

lemma foldl_plus_sum_list:
  "foldl (\<lambda>sum r. sum + f r) z xs = z + sum_list (map f xs)"
  for z :: rat
  by (induction xs arbitrary: z) (simp_all add: add.assoc)

lemma getTodayTotal_sum:
  "getTodayTotal pf st today
     = sum_list (map (\<lambda>r. pf (amount_r r))
         (filter (\<lambda>r. startsWith (timestamp_r r) today \<and> status r = Success) (receipts st)))"
proof -
  have "(\<lambda>r. startsWith (timestamp_r r) today \<and> status r = Success)
          = (\<lambda>r. status r = Success \<and> startsWith (timestamp_r r) today)"
    by (rule ext) blast
  then show ?thesis
    by (simp add: getTodayTotal_def getToday_def foldl_plus_sum_list)
qed

lemma startsWith_utcDate:
  assumes "length today = 10" and "length (utcDate ts) = 10"
  shows "startsWith ts today = (utcDate ts = today)"
proof -
  have "utcDate ts = take (length (utcDate ts)) ts"
    unfolding utcDate_def by (rule takeWhile_eq_take)
  with assms show ?thesis by (simp add: startsWith_def)
qed

lemma filter_utcDate:
  assumes "length today = 10"
    and "list_all (\<lambda>r. length (utcDate (timestamp_r r)) = 10) rs"
  shows "filter (\<lambda>r. startsWith (timestamp_r r) today \<and> status r = Success) rs
           = filter (\<lambda>r. utcDate (timestamp_r r) = today \<and> status r = Success) rs"
  using assms by (intro filter_cong refl) (simp add: list_all_iff startsWith_utcDate)

lemma getTodayTotal_append:
  "getTodayTotal pf (st\<lparr>receipts := receipts st @ [r]\<rparr>) today
     = getTodayTotal pf st today
         + (if startsWith (timestamp_r r) today \<and> status r = Success
            then pf (amount_r r) else 0)"
  by (simp add: getTodayTotal_sum)

text \<open>
  \<^bold>\<open>C10.\<close> \<^verbatim>\<open>getTodayTotal()\<close> is the sum of the parsed amounts of the stored receipts
  whose timestamp starts with the current UTC date and whose status is \<^verbatim>\<open>success\<close>; for
  ISO timestamps these are the receipts whose UTC date is today. A receipt of another
  day, or one that is pending, blocked or failed, adds nothing; a success of today adds
  its parsed amount.
\<close>

theorem getTodayTotal_sums_todays_successes:
  "getTodayTotal pf st today
     = sum_list (map (\<lambda>r. pf (amount_r r))
         (filter (\<lambda>r. startsWith (timestamp_r r) today \<and> status r = Success) (receipts st)))
   \<and> (length today = 10 \<and> list_all (\<lambda>r. length (utcDate (timestamp_r r)) = 10) (receipts st)
        \<longrightarrow> getTodayTotal pf st today
             = sum_list (map (\<lambda>r. pf (amount_r r))
                 (filter (\<lambda>r. utcDate (timestamp_r r) = today \<and> status r = Success)
                    (receipts st))))
   \<and> (status r \<noteq> Success \<or> \<not> startsWith (timestamp_r r) today
        \<longrightarrow> getTodayTotal pf (st\<lparr>receipts := receipts st @ [r]\<rparr>) today
             = getTodayTotal pf st today)
   \<and> (status r = Success \<and> startsWith (timestamp_r r) today
        \<longrightarrow> getTodayTotal pf (st\<lparr>receipts := receipts st @ [r]\<rparr>) today
             = getTodayTotal pf st today + pf (amount_r r))"
  using filter_utcDate [of today "receipts st"] getTodayTotal_append [of pf st r today]
  by (auto simp: getTodayTotal_sum)

theorem getTodayTotal_sums_todays_successes_witness:
  "length ''2026-02-03'' = 10
   \<and> list_all (\<lambda>r. length (utcDate (timestamp_r r)) = 10) (receipts dayStore)
   \<and> map (\<lambda>r. amountOf (amount_r r))
        (filter (\<lambda>r. utcDate (timestamp_r r) = ''2026-02-03'' \<and> status r = Success)
           (receipts dayStore)) = [3/2, 1/2]
   \<and> getTodayTotal amountOf dayStore ''2026-02-03'' = 2
   \<and> getTodayTotal amountOf
        (dayStore\<lparr>receipts := receipts dayStore
           @ [exampleReceipt ''f'' ''2026-02-03T12:00:00.000Z'' Failed ''1.50'']\<rparr>)
        ''2026-02-03'' = 2
   \<and> getTodayTotal amountOf
        (dayStore\<lparr>receipts := receipts dayStore
           @ [exampleReceipt ''g'' ''2026-02-03T12:00:00.000Z'' Success ''1.50'']\<rparr>)
        ''2026-02-03'' = 7/2"
proof -
  note defs = dayStore_def new_ReceiptStore_def exampleReceipt_def utcDate_def
  have len: "length ''2026-02-03'' = 10" by simp
  have wf: "list_all (\<lambda>r. length (utcDate (timestamp_r r)) = 10) (receipts dayStore)"
    by (simp add: defs)
  have vals: "map (\<lambda>r. amountOf (amount_r r))
        (filter (\<lambda>r. utcDate (timestamp_r r) = ''2026-02-03'' \<and> status r = Success)
           (receipts dayStore)) = [3/2, 1/2]"
    by (simp add: defs amountOf_def)
  from getTodayTotal_sums_todays_successes [of amountOf dayStore "''2026-02-03''"] len wf
  have "getTodayTotal amountOf dayStore ''2026-02-03''
          = sum_list (map (\<lambda>r. amountOf (amount_r r))
              (filter (\<lambda>r. utcDate (timestamp_r r) = ''2026-02-03'' \<and> status r = Success)
                 (receipts dayStore)))"
    by blast
  with vals have tot: "getTodayTotal amountOf dayStore ''2026-02-03'' = 2" by simp
  have f: "status (exampleReceipt ''f'' ''2026-02-03T12:00:00.000Z'' Failed ''1.50'') \<noteq> Success"
    by (simp add: exampleReceipt_def)
  have g: "status (exampleReceipt ''g'' ''2026-02-03T12:00:00.000Z'' Success ''1.50'') = Success
      \<and> startsWith (timestamp_r (exampleReceipt ''g'' ''2026-02-03T12:00:00.000Z'' Success ''1.50''))
           ''2026-02-03''"
    by (simp add: exampleReceipt_def startsWith_def)
  have ga: "amountOf (amount_r (exampleReceipt ''g'' ''2026-02-03T12:00:00.000Z'' Success ''1.50''))
      = 3/2"
    by (simp add: exampleReceipt_def amountOf_def)
  from getTodayTotal_sums_todays_successes [of amountOf dayStore "''2026-02-03''"
      "exampleReceipt ''f'' ''2026-02-03T12:00:00.000Z'' Failed ''1.50''"] f tot
  have tf: "getTodayTotal amountOf
        (dayStore\<lparr>receipts := receipts dayStore
           @ [exampleReceipt ''f'' ''2026-02-03T12:00:00.000Z'' Failed ''1.50'']\<rparr>)
        ''2026-02-03'' = 2"
    by simp
  from getTodayTotal_sums_todays_successes [of amountOf dayStore "''2026-02-03''"
      "exampleReceipt ''g'' ''2026-02-03T12:00:00.000Z'' Success ''1.50''"] g ga tot
  have tg: "getTodayTotal amountOf
        (dayStore\<lparr>receipts := receipts dayStore
           @ [exampleReceipt ''g'' ''2026-02-03T12:00:00.000Z'' Success ''1.50'']\<rparr>)
        ''2026-02-03'' = 7/2"
    by simp
  from len wf vals tot tf tg show ?thesis by blast
qed

end
